theory Spec2Isabelle
  imports Complex_Main
begin

section \<open>Hull Builder: \<open>convexHull\<close> of \<open>bot.js\<close>\<close>

text \<open>
  A point is the object \<open>{x, y}\<close> that the renderer hands to \<open>convexHull\<close>. JavaScript
  numbers are modelled as exact rationals: every finite double is a rational, and the
  arithmetic of the source is read without rounding.
\<close>

record point =
  px :: rat
  py :: rat

text \<open>The comparator given to \<open>Array.prototype.sort\<close>: by \<open>x\<close>, then by \<open>y\<close>.\<close>

definition compare_points :: "point \<Rightarrow> point \<Rightarrow> rat" where
  "compare_points a b = (if px a = px b then py a - py b else px a - px b)"

text \<open>
  \<open>points.slice().sort(cmp)\<close>: a stable sort, written as insertion from the right, so that
  an element goes in front of the elements it compares equal to that followed it.
\<close>

fun insert_sorted :: "point \<Rightarrow> point list \<Rightarrow> point list" where
  "insert_sorted p [] = [p]"
| "insert_sorted p (q # qs) =
     (if compare_points p q \<le> 0 then p # q # qs else q # insert_sorted p qs)"

definition sort_points :: "point list \<Rightarrow> point list" where
  "sort_points ps = foldr insert_sorted ps []"

text \<open>The cross product that decides the turn direction.\<close>

definition cross :: "point \<Rightarrow> point \<Rightarrow> point \<Rightarrow> rat" where
  "cross o' a b = (px a - px o') * (py b - py o') - (py a - py o') * (px b - px o')"

text \<open>
  The inner \<open>while\<close> loop: pop the last accepted point as long as there are two of them and
  the turn to the candidate is not strictly counter-clockwise.
\<close>

function pop_while :: "point list \<Rightarrow> point \<Rightarrow> point list" where
  "pop_while st p =
     (if length st \<ge> 2 \<and> cross (st ! (length st - 2)) (st ! (length st - 1)) p \<le> 0
      then pop_while (butlast st) p else st)"
  by pat_completeness auto
termination
  by (relation "measure (\<lambda>(st, p). length st)") auto

declare pop_while.simps [simp del]

text \<open>One round of the \<open>for\<close> loop: pop, then push the candidate.\<close>

definition push_point :: "point list \<Rightarrow> point \<Rightarrow> point list" where
  "push_point st p = pop_while st p @ [p]"

text \<open>
  The lower chain is built over the sorted points from left to right, the upper chain with
  the same loop body over the indices \<open>sorted.length - 1\<close> down to \<open>0\<close>.
\<close>

definition build_chain :: "point list \<Rightarrow> point list" where
  "build_chain ps = foldl push_point [] ps"

definition convexHull :: "point list \<Rightarrow> point list" where
  "convexHull points =
     (if length points < 3 then points
      else let sorted = sort_points points;
               lower = build_chain sorted;
               upper = build_chain (rev sorted)
           in butlast lower @ butlast upper)"

subsection \<open>What a hull is\<close>





subsection \<open>Notions used in the proof of the scan\<close>

text \<open>The order the comparator sorts by.\<close>

definition lexle :: "point \<Rightarrow> point \<Rightarrow> bool" where
  "lexle a b = (px a < px b \<or> (px a = px b \<and> py a \<le> py b))"

text \<open>
  Reflection in the origin keeps every cross product and reverses the order; it turns the
  upper chain into a lower chain.
\<close>

definition neg :: "point \<Rightarrow> point" where
  "neg p = \<lparr>px = - px p, py = - py p\<rparr>"






section \<open>Coordinate Mapper and Map Renderer: \<open>generateMapImage\<close>\<close>

text \<open>
  Errors of the JavaScript runtime are values of the model. \<open>TypeError\<close> is thrown by a
  call of a missing method and by a property access on \<open>null\<close> or \<open>undefined\<close>,
  \<open>SyntaxError\<close> by \<open>JSON.parse\<close>.
\<close>

datatype js_error = TypeError | SyntaxError

text \<open>
  A property read \<open>obj[key]\<close> on an object literal finds an own property, or a property
  that every object inherits from \<open>Object.prototype\<close>, or nothing. The inherited values are
  functions (and the prototype itself): they are truthy and have no \<open>push\<close>.
\<close>

definition object_prototype_keys :: "string list" where
  "object_prototype_keys =
     [''constructor'', ''__proto__'', ''hasOwnProperty'', ''isPrototypeOf'',
      ''propertyIsEnumerable'', ''toLocaleString'', ''toString'', ''valueOf'',
      ''__defineGetter__'', ''__defineSetter__'', ''__lookupGetter__'', ''__lookupSetter__'']"

datatype 'a property = Own 'a | Inherited | Missing

definition get_property :: "(string \<times> 'a) list \<Rightarrow> string \<Rightarrow> 'a property" where
  "get_property obj k =
     (case map_of obj k of
        Some v \<Rightarrow> Own v
      | None \<Rightarrow> if k \<in> set object_prototype_keys then Inherited else Missing)"

text \<open>
  A Base as the game server reports it. Every field may be absent; a coordinate that is
  there is a number, the other fields are strings.
\<close>

record base =
  base_name :: "string option"
  base_x :: "rat option"
  base_z :: "rat option"
  base_faction :: "string option"
  base_type :: "string option"
  base_poiType :: "string option"

text \<open>
  The source tests a coordinate with \<open>!base.x\<close>: the absent value is falsy, and so is
  the number \<open>0\<close>. (In \<open>base.name || 'Unknown'\<close> and its like, the absent value and
  the empty string are falsy.)
\<close>

definition falsy_number :: "rat option \<Rightarrow> bool" where
  "falsy_number v = (case v of None \<Rightarrow> True | Some n \<Rightarrow> n = 0)"

definition MAP_SIZE :: rat where
  "MAP_SIZE = 12800"

definition CANVAS_SIZE :: rat where
  "CANVAS_SIZE = 1200"

definition SCALE :: rat where
  "SCALE = CANVAS_SIZE / MAP_SIZE"

text \<open>
  The diagnostic bounding box of the first loop. A bound that is still at its initial
  value \<open>Infinity\<close> or \<open>-Infinity\<close> is \<open>None\<close>.
\<close>

record bounds =
  minX :: "rat option"
  maxX :: "rat option"
  minZ :: "rat option"
  maxZ :: "rat option"

definition Math_min :: "rat option \<Rightarrow> rat \<Rightarrow> rat option" where
  "Math_min m v = (case m of None \<Rightarrow> Some v | Some w \<Rightarrow> Some (min w v))"

definition Math_max :: "rat option \<Rightarrow> rat \<Rightarrow> rat option" where
  "Math_max m v = (case m of None \<Rightarrow> Some v | Some w \<Rightarrow> Some (max w v))"

fun bounding_box :: "base list \<Rightarrow> bounds \<Rightarrow> bounds" where
  "bounding_box [] bb = bb"
| "bounding_box (b # bs) bb =
     (if \<not> falsy_number (base_x b) \<and> \<not> falsy_number (base_z b)
      then (case (base_x b, base_z b) of
              (Some bx, Some bz) \<Rightarrow>
                bounding_box bs
                  \<lparr>minX = Math_min (minX bb) bx, maxX = Math_max (maxX bb) bx,
                   minZ = Math_min (minZ bb) bz, maxZ = Math_max (maxZ bb) bz\<rparr>
            | _ \<Rightarrow> bounding_box bs bb)
      else bounding_box bs bb)"

text \<open>
  The head of the second loop: \<open>continue\<close> on a falsy coordinate, else the record
  \<open>{...base, canvasX, canvasY}\<close> with the Z axis flipped.
\<close>

record base_position =
  bp_base :: base
  canvasX :: rat
  canvasY :: rat

definition place_base :: "base \<Rightarrow> base_position option" where
  "place_base b =
     (if falsy_number (base_x b) \<or> falsy_number (base_z b) then None
      else (case (base_x b, base_z b) of
              (Some bx, Some bz) \<Rightarrow>
                Some \<lparr>bp_base = b, canvasX = bx * SCALE, canvasY = (MAP_SIZE - bz) * SCALE\<rparr>
            | _ \<Rightarrow> None))"

text \<open>
  The object \<open>factionBases\<close> of the renderer, with its keys in insertion order, and the
  \<open>push\<close> onto one of its arrays.
\<close>

type_synonym faction_points = "(string \<times> point list) list"

definition faction_points_init :: faction_points where
  "faction_points_init = [(''US'', []), (''USSR'', []), (''FIA'', [])]"

definition push_faction_point :: "faction_points \<Rightarrow> string \<Rightarrow> point \<Rightarrow> faction_points" where
  "push_faction_point fb k pt =
     map (\<lambda>(k', pts). if k' = k then (k', pts @ [pt]) else (k', pts)) fb"

text \<open>
  The second loop. The test \<open>factionBases[base.faction]\<close> is falsy for a missing key, and
  truthy for an inherited one, on which the call of \<open>push\<close> then throws.
\<close>

fun collect_positions ::
  "base list \<Rightarrow> base_position list \<times> faction_points \<Rightarrow>
   js_error + base_position list \<times> faction_points" where
  "collect_positions [] acc = Inr acc"
| "collect_positions (b # bs) (basePositions, factionBases) =
     (case place_base b of
        None \<Rightarrow> collect_positions bs (basePositions, factionBases)
      | Some baseData \<Rightarrow>
          (if base_faction b \<noteq> Some ''Neutral'' \<and> base_type b \<noteq> Some ''HQ''
           then (case base_faction b of
                   None \<Rightarrow> collect_positions bs (basePositions @ [baseData], factionBases)
                 | Some f \<Rightarrow>
                     (case get_property factionBases f of
                        Own pts \<Rightarrow>
                          collect_positions bs
                            (basePositions @ [baseData],
                             push_faction_point factionBases f
                               \<lparr>px = canvasX baseData, py = canvasY baseData\<rparr>)
                      | Inherited \<Rightarrow> Inl TypeError
                      | Missing \<Rightarrow>
                          collect_positions bs (basePositions @ [baseData], factionBases)))
           else collect_positions bs (basePositions @ [baseData], factionBases)))"

text \<open>
  The border of one faction: nothing for fewer than three points, and nothing for a hull
  of fewer than three points.
\<close>

definition faction_border :: "point list \<Rightarrow> point list option" where
  "faction_border points =
     (if length points < 3 then None
      else let hullPoints = convexHull points
           in if length hullPoints < 3 then None else Some hullPoints)"

definition draw_borders :: "faction_points \<Rightarrow> (string \<times> point list) list" where
  "draw_borders fb =
     List.map_filter (\<lambda>(faction, points). map_option (Pair faction) (faction_border points)) fb"

text \<open>The marker of a base: its shape by type, and its label.\<close>

datatype marker = Star | Diamond | Circle

definition marker_shape :: "base \<Rightarrow> marker" where
  "marker_shape b =
     (if base_type b = Some ''HQ'' then Star
      else if base_type b = Some ''POI'' then Diamond
      else Circle)"

definition marker_label :: "base \<Rightarrow> string" where
  "marker_label b =
     (case base_name b of None \<Rightarrow> ''Unknown'' | Some n \<Rightarrow> if n = [] then ''Unknown'' else n)"

text \<open>
  What \<open>generateMapImage\<close> draws from the bases, up to colours, fonts and the fixed legend:
  the logged bounding box, the dashed border polygons, and a marker with its label at the
  canvas position of every placed base.
\<close>

record scene =
  sc_bounds :: bounds
  sc_borders :: "(string \<times> point list) list"
  sc_markers :: "(marker \<times> string \<times> rat \<times> rat) list"

definition draw_marker :: "base_position \<Rightarrow> marker \<times> string \<times> rat \<times> rat" where
  "draw_marker bd = (marker_shape (bp_base bd), marker_label (bp_base bd), canvasX bd, canvasY bd)"

definition generateMapImage :: "base list \<Rightarrow> js_error + scene" where
  "generateMapImage bases =
     (let bb = bounding_box bases \<lparr>minX = None, maxX = None, minZ = None, maxZ = None\<rparr>
      in case collect_positions bases ([], faction_points_init) of
           Inl e \<Rightarrow> Inl e
         | Inr (basePositions, factionBases) \<Rightarrow>
             Inr \<lparr>sc_bounds = bb, sc_borders = draw_borders factionBases,
                  sc_markers = map draw_marker basePositions\<rparr>)"

text \<open>
  The hull-point collections alone: what the second loop leaves in \<open>factionBases\<close>, or the
  error it stops with.
\<close>

definition hull_point_collections :: "base list \<Rightarrow> js_error + faction_points" where
  "hull_point_collections bases = map_sum id snd (collect_positions bases ([], faction_points_init))"

text \<open>
  The eligibility rule in the words of the specification: hull computation per faction
  considers the bases of that faction, one of the three playable factions, whose type is
  not HQ; a considered base contributes its canvas position.
\<close>

definition eligible :: "string \<Rightarrow> base \<Rightarrow> bool" where
  "eligible k b =
     (base_faction b = Some k \<and> k \<in> {''US'', ''USSR'', ''FIA''} \<and> base_type b \<noteq> Some ''HQ'')"

definition eligible_points :: "string \<Rightarrow> base list \<Rightarrow> point list" where
  "eligible_points k bases =
     List.map_filter
       (\<lambda>b. if eligible k b
            then map_option (\<lambda>bd. \<lparr>px = canvasX bd, py = canvasY bd\<rparr>) (place_base b)
            else None) bases"

text \<open>
  The bases on which the second loop throws: a placed base, not an HQ, whose faction is the
  name of a property inherited from \<open>Object.prototype\<close>.
\<close>

definition push_throws :: "base \<Rightarrow> bool" where
  "push_throws b =
     (place_base b \<noteq> None \<and> base_type b \<noteq> Some ''HQ'' \<and>
      (\<exists>f\<in>set object_prototype_keys. base_faction b = Some f))"

section \<open>Territory Publisher: the textual summary of \<open>updateTerritoryMap\<close>\<close>

text \<open>
  The object \<open>factionBases\<close> of the publisher, with its keys in insertion order. The
  display names end in an emoji in the source, which is left out here.
\<close>

record faction_data =
  fd_name :: string
  fd_bases :: "base list"
  fd_hq :: "base list"
  fd_fobs :: "base list"
  fd_pois :: "base list"

type_synonym faction_table = "(string \<times> faction_data) list"

definition empty_faction :: "string \<Rightarrow> faction_data" where
  "empty_faction n = \<lparr>fd_name = n, fd_bases = [], fd_hq = [], fd_fobs = [], fd_pois = []\<rparr>"

definition summary_factions :: faction_table where
  "summary_factions =
     [(''US'', empty_faction ''Meridian Federation''),
      (''USSR'', empty_faction ''Kharsovian Republic''),
      (''FIA'', empty_faction ''Khorasan Covenant''),
      (''Neutral'', empty_faction ''Neutral'')]"

text \<open>\<open>base.faction || 'Neutral'\<close>\<close>

definition summary_faction :: "base \<Rightarrow> string" where
  "summary_faction b =
     (case base_faction b of None \<Rightarrow> ''Neutral'' | Some f \<Rightarrow> if f = [] then ''Neutral'' else f)"

text \<open>
  \<open>factionBases[faction] || factionBases['Neutral']\<close>: an entry of the table, or a value
  inherited from \<open>Object.prototype\<close>, which has none of the arrays.
\<close>

datatype faction_target = Entry string | Prototype

definition faction_target :: "faction_table \<Rightarrow> string \<Rightarrow> faction_target" where
  "faction_target factionBases faction =
     (case get_property factionBases faction of
        Own d \<Rightarrow> Entry faction
      | Inherited \<Rightarrow> Prototype
      | Missing \<Rightarrow> Entry ''Neutral'')"

definition update_entry ::
  "faction_table \<Rightarrow> string \<Rightarrow> (faction_data \<Rightarrow> faction_data) \<Rightarrow> faction_table" where
  "update_entry factionBases k f =
     map (\<lambda>(k', d). if k' = k then (k', f d) else (k', d)) factionBases"

definition push_to ::
  "faction_table \<Rightarrow> faction_target \<Rightarrow> (faction_data \<Rightarrow> faction_data) \<Rightarrow>
   js_error + faction_table" where
  "push_to factionBases target f =
     (case target of
        Entry k \<Rightarrow> Inr (update_entry factionBases k f)
      | Prototype \<Rightarrow> Inl TypeError)"

text \<open>The loop that categorizes the bases; a base of any other type is pushed nowhere.\<close>

fun categorize :: "base list \<Rightarrow> faction_table \<Rightarrow> js_error + faction_table" where
  "categorize [] factionBases = Inr factionBases"
| "categorize (b # bs) factionBases =
     (let factionData = faction_target factionBases (summary_faction b);
          pushed =
            (if base_type b = Some ''HQ''
               then push_to factionBases factionData (\<lambda>d. d\<lparr>fd_hq := fd_hq d @ [b]\<rparr>)
             else if base_type b = Some ''FOB''
               then push_to factionBases factionData (\<lambda>d. d\<lparr>fd_fobs := fd_fobs d @ [b]\<rparr>)
             else if base_type b = Some ''POI''
               then push_to factionBases factionData (\<lambda>d. d\<lparr>fd_pois := fd_pois d @ [b]\<rparr>)
             else Inr factionBases)
      in case pushed of Inl e \<Rightarrow> Inl e | Inr factionBases' \<Rightarrow> categorize bs factionBases')"

text \<open>
  The POIs of a faction grouped by \<open>poi.poiType || 'Other'\<close>, each group holding the names
  in order; the groups are in insertion order, as the keys of an object are when none of
  them is an array index.
\<close>

type_synonym poi_groups = "(string \<times> string option list) list"

definition poi_group_key :: "base \<Rightarrow> string" where
  "poi_group_key poi =
     (case base_poiType poi of None \<Rightarrow> ''Other'' | Some t \<Rightarrow> if t = [] then ''Other'' else t)"

fun group_pois :: "base list \<Rightarrow> poi_groups \<Rightarrow> js_error + poi_groups" where
  "group_pois [] poiGroups = Inr poiGroups"
| "group_pois (poi # ps) poiGroups =
     (case get_property poiGroups (poi_group_key poi) of
        Own names \<Rightarrow>
          group_pois ps
            (map (\<lambda>(k, ns). if k = poi_group_key poi then (k, ns @ [base_name poi]) else (k, ns))
               poiGroups)
      | Inherited \<Rightarrow> Inl TypeError
      | Missing \<Rightarrow> group_pois ps (poiGroups @ [(poi_group_key poi, [base_name poi])]))"

text \<open>
  A field of the embed: the section of one faction, with the count of its header and the
  names of each of its lines, or the placeholder of an empty snapshot.
\<close>

record faction_field =
  ff_name :: string
  ff_total :: nat
  ff_hq :: "string option list"
  ff_fobs :: "string option list"
  ff_pois :: poi_groups

datatype embed_field = FactionField faction_field | NoData

definition totalBases :: "faction_data \<Rightarrow> nat" where
  "totalBases d = length (fd_hq d) + length (fd_fobs d) + length (fd_pois d)"

fun faction_fields :: "faction_table \<Rightarrow> js_error + embed_field list" where
  "faction_fields [] = Inr []"
| "faction_fields ((factionKey, d) # rest) =
     (if totalBases d = 0 then faction_fields rest
      else (case group_pois (fd_pois d) [] of
              Inl e \<Rightarrow> Inl e
            | Inr poiGroups \<Rightarrow>
                (case faction_fields rest of
                   Inl e \<Rightarrow> Inl e
                 | Inr others \<Rightarrow>
                     Inr (FactionField
                            \<lparr>ff_name = fd_name d, ff_total = totalBases d,
                             ff_hq = map base_name (fd_hq d),
                             ff_fobs = map base_name (fd_fobs d),
                             ff_pois = poiGroups\<rparr> # others))))"

definition summary_fields :: "base list \<Rightarrow> js_error + embed_field list" where
  "summary_fields bases =
     (if length bases > 0
      then (case categorize bases summary_factions of
              Inl e \<Rightarrow> Inl e
            | Inr factionBases \<Rightarrow> faction_fields factionBases)
      else Inr [NoData])"


text \<open>A base, and a table of bases, with the coordinates taken away.\<close>

definition strip_coordinates :: "base \<Rightarrow> base" where
  "strip_coordinates b = b\<lparr>base_x := None, base_z := None\<rparr>"

definition strip_table :: "faction_table \<Rightarrow> faction_table" where
  "strip_table factionBases =
     map (\<lambda>(k, d). (k, d\<lparr>fd_hq := map strip_coordinates (fd_hq d),
                          fd_fobs := map strip_coordinates (fd_fobs d),
                          fd_pois := map strip_coordinates (fd_pois d)\<rparr>)) factionBases"

section \<open>Ingestion Adapter: the handlers of \<open>/api/territory\<close>\<close>

text \<open>
  A JavaScript value as a request body or a parsed JSON text can be. An object holds its
  own properties in the order \<open>Object.keys\<close> lists them.
\<close>

datatype js = Undefined | Null | Bool bool | Num rat | Str string | Arr "js list"
  | Obj "(string \<times> js) list"

text \<open>
  What the handler takes from its surroundings: \<open>JSON.parse\<close> of the runtime (\<open>None\<close> when
  it throws), the time stamp \<open>new Date().toISOString()\<close>, and whether \<open>fs.writeFileSync\<close>
  succeeds.
\<close>

record runtime =
  JSON_parse :: "string \<Rightarrow> js option"
  now :: string
  write_ok :: bool

text \<open>
  The state: the variable \<open>territoryData\<close> and the content of the territory file, held as
  the value that was serialized into it (\<open>None\<close> when there is no file).
\<close>

record server_state =
  territoryData :: js
  territoryFile :: "js option"

datatype response = Success | Error500

text \<open>\<open>Object.keys(v)[0]\<close>: it throws on \<open>null\<close> and \<open>undefined\<close>.\<close>

definition first_key :: "js \<Rightarrow> js_error + string option" where
  "first_key v =
     (case v of
        Undefined \<Rightarrow> Inl TypeError
      | Null \<Rightarrow> Inl TypeError
      | Bool _ \<Rightarrow> Inr None
      | Num _ \<Rightarrow> Inr None
      | Str s \<Rightarrow> Inr (if s = [] then None else Some ''0'')
      | Arr xs \<Rightarrow> Inr (if xs = [] then None else Some ''0'')
      | Obj kvs \<Rightarrow> Inr (case kvs of [] \<Rightarrow> None | (k, _) # _ \<Rightarrow> Some k))"

text \<open>String concatenation with a key that may be \<open>undefined\<close>.\<close>

definition concat_key :: "string option \<Rightarrow> string" where
  "concat_key k = (case k of None \<Rightarrow> ''undefined'' | Some s \<Rightarrow> s)"

definition startsWith_brace :: "string \<Rightarrow> bool" where
  "startsWith_brace s = (case s of [] \<Rightarrow> False | c # _ \<Rightarrow> c = CHR ''{'')"

definition parse_json :: "runtime \<Rightarrow> string \<Rightarrow> js_error + js" where
  "parse_json rt s = (case JSON_parse rt s of None \<Rightarrow> Inl SyntaxError | Some d \<Rightarrow> Inr d)"

text \<open>
  The first half of the POST handler, up to \<open>parsedData\<close>. \<open>typeof null\<close> is
  \<open>'object'\<close>, so that \<open>Object.keys\<close> throws on a \<open>null\<close> body.
\<close>

definition parse_body :: "runtime \<Rightarrow> js \<Rightarrow> js_error + js" where
  "parse_body rt body =
     (case body of
        Null \<Rightarrow> Inl TypeError
      | Obj kvs \<Rightarrow>
          (case kvs of
             [] \<Rightarrow> Inr body
           | (firstKey, v) # _ \<Rightarrow>
               if firstKey \<noteq> [] \<and> startsWith_brace firstKey
               then (case first_key v of
                       Inl e \<Rightarrow> Inl e
                     | Inr arrayContent \<Rightarrow>
                         parse_json rt (''{\"bases\":['' @ concat_key arrayContent @ '']}''))
               else Inr body)
      | Str s \<Rightarrow> parse_json rt s
      | _ \<Rightarrow> Inr body)"

text \<open>
  The assignment \<open>territoryData.lastUpdate = ...\<close>: it throws on \<open>null\<close> and
  \<open>undefined\<close>, sets or adds the property of an object, and leaves a primitive value as
  it is. On an array it adds a property that no serialization shows.
\<close>

fun set_property :: "(string \<times> js) list \<Rightarrow> string \<Rightarrow> js \<Rightarrow> (string \<times> js) list" where
  "set_property [] k v = [(k, v)]"
| "set_property ((k', v') # kvs) k v =
     (if k' = k then (k, v) # kvs else (k', v') # set_property kvs k v)"

definition set_lastUpdate :: "js \<Rightarrow> string \<Rightarrow> js_error + js" where
  "set_lastUpdate d t =
     (case d of
        Undefined \<Rightarrow> Inl TypeError
      | Null \<Rightarrow> Inl TypeError
      | Obj kvs \<Rightarrow> Inr (Obj (set_property kvs ''lastUpdate'' (Str t)))
      | _ \<Rightarrow> Inr d)"

text \<open>
  The POST handler: parse, assign \<open>territoryData\<close>, stamp it, write the file, answer.
  Whatever throws is caught and answered with status 500.
\<close>

definition post_territory :: "runtime \<Rightarrow> js \<Rightarrow> server_state \<Rightarrow> response \<times> server_state" where
  "post_territory rt body s =
     (case parse_body rt body of
        Inl e \<Rightarrow> (Error500, s)
      | Inr parsedData \<Rightarrow>
          (case set_lastUpdate parsedData (now rt) of
             Inl e \<Rightarrow> (Error500, s\<lparr>territoryData := parsedData\<rparr>)
           | Inr stamped \<Rightarrow>
               if write_ok rt
               then (Success, s\<lparr>territoryData := stamped, territoryFile := Some stamped\<rparr>)
               else (Error500, s\<lparr>territoryData := stamped\<rparr>)))"

text \<open>The GET handler answers with \<open>territoryData\<close>.\<close>

definition get_territory :: "server_state \<Rightarrow> js" where
  "get_territory s = territoryData s"

text \<open>The publisher reads the file again before it renders.\<close>

definition reload_territory :: "server_state \<Rightarrow> server_state" where
  "reload_territory s =
     (case territoryFile s of None \<Rightarrow> s | Some d \<Rightarrow> s\<lparr>territoryData := d\<rparr>)"

text \<open>A property of a snapshot, such as \<open>territoryData.bases\<close>.\<close>

definition get_member :: "js \<Rightarrow> string \<Rightarrow> js" where
  "get_member d k =
     (case d of
        Obj kvs \<Rightarrow> (case map_of kvs k of Some v \<Rightarrow> v | None \<Rightarrow> Undefined)
      | _ \<Rightarrow> Undefined)"

section \<open>Turns between vectors of the right half plane\<close>





subsection \<open>The order of the sort\<close>








lemma cross_same [simp]: "cross a a b = 0" "cross a b a = 0" "cross a b b = 0"
  by (simp_all add: cross_def algebra_simps)

subsection \<open>What a turn says about later and earlier points\<close>





section \<open>The scan keeps its invariant\<close>
















subsection \<open>The sort\<close>

lemma set_insert_sorted [simp]: "set (insert_sorted p qs) = insert p (set qs)"
  by (induction qs) auto


lemma set_sort_points [simp]: "set (sort_points ps) = set ps"
  by (induction ps) (simp_all add: sort_points_def)

lemma length_insert_sorted [simp]: "length (insert_sorted p qs) = Suc (length qs)"
  by (induction qs) auto

lemma length_sort_points [simp]: "length (sort_points ps) = length ps"
  by (induction ps) (simp_all add: sort_points_def)



section \<open>Points on the line of an edge\<close>







subsection \<open>The upper chain by reflection\<close>

lemma neg_neg [simp]: "neg (neg p) = p"
  by (simp add: neg_def)

lemma cross_neg [simp]: "cross (neg o') (neg a) (neg b) = cross o' a b"
  by (simp add: cross_def neg_def algebra_simps)

lemma lexle_neg [simp]: "lexle (neg a) (neg b) = lexle b a"
  by (auto simp: lexle_def neg_def)

lemma neg_inj [simp]: "neg a = neg b \<longleftrightarrow> a = b"
  by (metis neg_neg)





section \<open>Every other vertex is strictly left of an edge\<close>





section \<open>The two chains as one polygon\<close>






lemma neg_comp_neg [simp]: "neg \<circ> neg = id"
  by (rule ext) simp

lemma map_neg_neg: "map neg (map neg xs) = xs"
  by simp

lemma image_neg_neg [simp]: "neg ` neg ` Q = Q"
  by (auto simp: image_image)







section \<open>Degenerate inputs of the Hull Builder\<close>

text \<open>
  Claim C8: for every input point sequence with fewer than three points, \<open>convexHull\<close>
  returns the input unchanged.
\<close>

theorem convexHull_small_unchanged:
  "length points < 3 \<Longrightarrow> convexHull points = points"
  by (simp add: convexHull_def)

theorem convexHull_small_unchanged_witness:
  "length [\<lparr>px = 1, py = 2\<rparr>, \<lparr>px = 0, py = 5\<rparr>] < 3 \<and>
   convexHull [\<lparr>px = 1, py = 2\<rparr>, \<lparr>px = 0, py = 5\<rparr>] = [\<lparr>px = 1, py = 2\<rparr>, \<lparr>px = 0, py = 5\<rparr>]"
  using convexHull_small_unchanged [of "[\<lparr>px = 1, py = 2\<rparr>, \<lparr>px = 0, py = 5\<rparr>]"] by simp

section \<open>Correctness of the hull\<close>




section \<open>The renderer's loops in closed form\<close>

lemma placed_iff:
  "place_base b \<noteq> None \<longleftrightarrow> \<not> falsy_number (base_x b) \<and> \<not> falsy_number (base_z b)"
  by (auto simp: place_base_def falsy_number_def split: option.splits)

lemma collect_positions_filter:
  assumes "\<And>b. place_base b \<noteq> None \<Longrightarrow> P b"
  shows "collect_positions (filter P bases) acc = collect_positions bases acc"
proof (induction bases arbitrary: acc)
  case Nil
  then show ?case by simp
next
  case (Cons b bases)
  obtain pos fb where acc: "acc = (pos, fb)" by (cases acc)
  show ?case
  proof (cases "P b")
    case True
    then show ?thesis
      unfolding acc using Cons.IH
      by (simp split: option.splits property.splits)
  next
    case False
    then have "place_base b = None" using assms by blast
    then show ?thesis unfolding acc using False Cons.IH by simp
  qed
qed

lemma bounding_box_filter:
  assumes "\<And>b. place_base b \<noteq> None \<Longrightarrow> P b"
  shows "bounding_box (filter P bases) bb = bounding_box bases bb"
proof (induction bases arbitrary: bb)
  case Nil
  then show ?case by simp
next
  case (Cons b bases)
  show ?case
  proof (cases "P b")
    case True
    then show ?thesis using Cons.IH by (simp split: option.splits)
  next
    case False
    then have "\<not> (\<not> falsy_number (base_x b) \<and> \<not> falsy_number (base_z b))"
      using assms placed_iff by blast
    then show ?thesis using False Cons.IH by auto
  qed
qed

lemma generateMapImage_filter:
  assumes "\<And>b. place_base b \<noteq> None \<Longrightarrow> P b"
  shows "generateMapImage (filter P bases) = generateMapImage bases"
  unfolding generateMapImage_def
  by (simp add: collect_positions_filter [OF assms] bounding_box_filter [OF assms])

lemma get_property_points:
  assumes "fst ` set fb \<subseteq> {''US'', ''USSR'', ''FIA''}"
  shows "get_property fb f =
           (if f \<in> fst ` set fb then Own (the (map_of fb f))
            else if f \<in> set object_prototype_keys then Inherited else Missing)"
proof (cases "map_of fb f")
  case None
  then have "f \<notin> fst ` set fb" by (simp add: map_of_eq_None_iff)
  then show ?thesis using None by (simp add: get_property_def)
next
  case (Some v)
  then have "f \<in> fst ` set fb" by (metis map_of_SomeD fst_conv image_eqI)
  then show ?thesis using Some by (simp add: get_property_def)
qed

lemma keys_push [simp]: "fst ` set (push_faction_point fb k pt) = fst ` set fb"
  by (force simp: push_faction_point_def split: if_splits)

lemma prototype_not_faction:
  "f \<in> set object_prototype_keys \<Longrightarrow> f \<notin> {''US'', ''USSR'', ''FIA'', ''Neutral''}"
  by (auto simp: object_prototype_keys_def)


lemma eligible_points_Cons:
  "eligible_points k (b # bs) =
     (if eligible k b
      then (case place_base b of None \<Rightarrow> [] | Some bd \<Rightarrow> [\<lparr>px = canvasX bd, py = canvasY bd\<rparr>])
      else []) @ eligible_points k bs"
  by (simp add: eligible_points_def List.map_filter_simps split: option.splits)

lemma eligible_points_Nil [simp]: "eligible_points k [] = []"
  by (simp add: eligible_points_def List.map_filter_simps)

lemma collect_step_none:
  "place_base b = None \<Longrightarrow>
   collect_positions (b # bs) (pos, fb) = collect_positions bs (pos, fb)"
  by simp

lemma collect_step_plain:
  "place_base b = Some bd \<Longrightarrow> base_faction b = Some ''Neutral'' \<or> base_type b = Some ''HQ'' \<Longrightarrow>
   collect_positions (b # bs) (pos, fb) = collect_positions bs (pos @ [bd], fb)"
  by auto

lemma collect_step_no_faction:
  "place_base b = Some bd \<Longrightarrow> base_faction b = None \<Longrightarrow>
   collect_positions (b # bs) (pos, fb) = collect_positions bs (pos @ [bd], fb)"
  by auto

lemma collect_step_faction:
  "place_base b = Some bd \<Longrightarrow> base_faction b = Some f \<Longrightarrow> f \<noteq> ''Neutral'' \<Longrightarrow>
   base_type b \<noteq> Some ''HQ'' \<Longrightarrow>
   collect_positions (b # bs) (pos, fb) =
     (case get_property fb f of
        Own pts \<Rightarrow>
          collect_positions bs
            (pos @ [bd], push_faction_point fb f \<lparr>px = canvasX bd, py = canvasY bd\<rparr>)
      | Inherited \<Rightarrow> Inl TypeError
      | Missing \<Rightarrow> collect_positions bs (pos @ [bd], fb))"
  by auto

lemma collect_positions_closed:
  assumes "fst ` set fb \<subseteq> {''US'', ''USSR'', ''FIA''}"
  shows "collect_positions bs (pos, fb) =
           (if \<exists>b\<in>set bs. push_throws b then Inl TypeError
            else Inr (pos @ List.map_filter place_base bs,
                      map (\<lambda>(k, pts). (k, pts @ eligible_points k bs)) fb))"
  using assms
proof (induction bs arbitrary: pos fb)
  case Nil
  then show ?case by (simp add: List.map_filter_simps)
next
  case (Cons b bs)
  note keys = Cons.prems
  note [simp del] = collect_positions.simps(2)
  let ?grow = "\<lambda>bs. map (\<lambda>(k, pts). (k, pts @ eligible_points k bs)) fb"
  have same: "?grow (b # bs) = ?grow bs"
    if "\<And>k. k \<in> fst ` set fb \<Longrightarrow> \<not> eligible k b \<or> place_base b = None"
  proof (rule map_cong [OF refl])
    fix e assume e: "e \<in> set fb"
    obtain k pts where kp: "e = (k, pts)" by (cases e)
    have "k \<in> fst ` set fb" using e kp by force
    then have "eligible_points k (b # bs) = eligible_points k bs"
      using that [of k] by (auto simp: eligible_points_Cons)
    then show "(case e of (k, pts) \<Rightarrow> (k, pts @ eligible_points k (b # bs))) =
               (case e of (k, pts) \<Rightarrow> (k, pts @ eligible_points k bs))"
      by (simp add: kp)
  qed
  have no_neutral: "''Neutral'' \<notin> set object_prototype_keys"
    using prototype_not_faction by blast
  show ?case
  proof (cases "place_base b")
    case None
    have nt: "\<not> push_throws b" using None by (simp add: push_throws_def)
    have g: "?grow (b # bs) = ?grow bs" using None by (intro same) simp
    show ?thesis
      unfolding collect_step_none [OF None] Cons.IH [OF keys] g
      using None nt by (simp add: List.map_filter_simps)
  next
    case (Some bd)
    have placed: "List.map_filter place_base (b # bs) = bd # List.map_filter place_base bs"
      using Some by (simp add: List.map_filter_simps)
    consider (plain) "base_faction b = Some ''Neutral'' \<or> base_type b = Some ''HQ''"
      | (none) "base_faction b = None"
      | (faction) f where "base_faction b = Some f" "f \<noteq> ''Neutral''" "base_type b \<noteq> Some ''HQ''"
      by (cases "base_faction b") auto
    then show ?thesis
    proof cases
      case plain
      have nt: "\<not> push_throws b"
        using plain no_neutral by (auto simp: push_throws_def)
      have "\<not> eligible k b" for k using plain by (auto simp: eligible_def)
      then have g: "?grow (b # bs) = ?grow bs" by (intro same) simp
      show ?thesis
        unfolding collect_step_plain [OF Some plain] Cons.IH [OF keys] g placed
        using nt by simp
    next
      case none
      have nt: "\<not> push_throws b" using none by (simp add: push_throws_def)
      have "\<not> eligible k b" for k using none by (simp add: eligible_def)
      then have g: "?grow (b # bs) = ?grow bs" by (intro same) simp
      show ?thesis
        unfolding collect_step_no_faction [OF Some none] Cons.IH [OF keys] g placed
        using nt by simp
    next
      case (faction f)
      note step = collect_step_faction [OF Some faction]
      note gp = get_property_points [OF keys, of f]
      show ?thesis
      proof (cases "f \<in> fst ` set fb")
        case in_keys: True
        let ?pt = "\<lparr>px = canvasX bd, py = canvasY bd\<rparr>"
        let ?fb = "push_faction_point fb f ?pt"
        have nt: "\<not> push_throws b"
          using faction(1) in_keys keys prototype_not_faction by (auto simp: push_throws_def)
        have keys': "fst ` set ?fb \<subseteq> {''US'', ''USSR'', ''FIA''}" using keys by simp
        have g: "map (\<lambda>(k, pts). (k, pts @ eligible_points k bs)) ?fb = ?grow (b # bs)"
          unfolding push_faction_point_def map_map
        proof (rule map_cong [OF refl])
          fix e assume e: "e \<in> set fb"
          obtain k pts where kp: "e = (k, pts)" by (cases e)
          have k: "k \<in> {''US'', ''USSR'', ''FIA''}" using e kp keys by force
          have "eligible k b \<longleftrightarrow> k = f"
            using faction k by (auto simp: eligible_def)
          then show "((\<lambda>(k, pts). (k, pts @ eligible_points k bs)) \<circ>
                      (\<lambda>(k', pts). if k' = f then (k', pts @ [?pt]) else (k', pts))) e =
                     (case e of (k, pts) \<Rightarrow> (k, pts @ eligible_points k (b # bs)))"
            using Some by (simp add: kp eligible_points_Cons)
        qed
        have "collect_positions (b # bs) (pos, fb) = collect_positions bs (pos @ [bd], ?fb)"
          unfolding step gp using in_keys by simp
        then show ?thesis
          unfolding Cons.IH [OF keys'] g placed using nt by simp
      next
        case not_keys: False
        have "\<not> eligible k b \<or> place_base b = None" if "k \<in> fst ` set fb" for k
          using that not_keys faction(1) by (auto simp: eligible_def)
        then have g: "?grow (b # bs) = ?grow bs" by (intro same) simp
        show ?thesis
        proof (cases "f \<in> set object_prototype_keys")
          case True
          then have "push_throws b"
            using Some faction by (auto simp: push_throws_def)
          moreover have "collect_positions (b # bs) (pos, fb) = Inl TypeError"
            unfolding step gp using not_keys True by simp
          ultimately show ?thesis by simp
        next
          case False
          then have nt: "\<not> push_throws b" using faction(1) by (auto simp: push_throws_def)
          have "collect_positions (b # bs) (pos, fb) = collect_positions bs (pos @ [bd], fb)"
            unfolding step gp using not_keys False by simp
          then show ?thesis
            unfolding Cons.IH [OF keys] g placed using nt by simp
        qed
      qed
    qed
  qed
qed

lemma hull_point_collections_closed:
  "hull_point_collections bases =
     (if \<exists>b\<in>set bases. push_throws b then Inl TypeError
      else Inr [(''US'', eligible_points ''US'' bases),
                (''USSR'', eligible_points ''USSR'' bases),
                (''FIA'', eligible_points ''FIA'' bases)])"
proof -
  have "fst ` set faction_points_init \<subseteq> {''US'', ''USSR'', ''FIA''}"
    by (simp add: faction_points_init_def)
  from collect_positions_closed [OF this, of bases "[]"]
  show ?thesis
    by (simp add: hull_point_collections_def faction_points_init_def)
qed


lemma eligible_points_filter:
  assumes "\<And>b. eligible k b \<Longrightarrow> P b"
  shows "eligible_points k (filter P bases) = eligible_points k bases"
proof (induction bases)
  case Nil
  then show ?case by simp
next
  case (Cons b bases)
  show ?case
  proof (cases "P b")
    case True
    then show ?thesis using Cons.IH by (simp add: eligible_points_Cons)
  next
    case False
    then have "\<not> eligible k b" using assms by blast
    then show ?thesis using False Cons.IH by (simp add: eligible_points_Cons)
  qed
qed

section \<open>Coordinate mapping\<close>




section \<open>Which bases reach the hull builder\<close>

text \<open>
  Claim C4: for every base list, the second loop of the renderer leaves in the collection
  of each of the three factions exactly the canvas positions of the placed bases of that
  faction whose type is not HQ (unless it throws); a base whose faction is Neutral or
  whose type is HQ is never eligible, and taking all such bases out of the list changes
  nothing in the collections.
\<close>

theorem faction_eligibility_filter:
  "hull_point_collections bases =
     (if \<exists>b\<in>set bases. push_throws b then Inl TypeError
      else Inr [(''US'', eligible_points ''US'' bases),
                (''USSR'', eligible_points ''USSR'' bases),
                (''FIA'', eligible_points ''FIA'' bases)]) \<and>
   hull_point_collections
     (filter (\<lambda>b. base_faction b \<noteq> Some ''Neutral'' \<and> base_type b \<noteq> Some ''HQ'') bases) =
     hull_point_collections bases \<and>
   (\<forall>k b. base_faction b = Some ''Neutral'' \<or> base_type b = Some ''HQ'' \<longrightarrow> \<not> eligible k b)"
proof -
  let ?P = "\<lambda>b. base_faction b \<noteq> Some ''Neutral'' \<and> base_type b \<noteq> Some ''HQ''"
  have el: "\<not> eligible k b" if "base_faction b = Some ''Neutral'' \<or> base_type b = Some ''HQ''"
    for k b
    using that by (auto simp: eligible_def)
  then have pts: "eligible_points k (filter ?P bases) = eligible_points k bases" for k
    by (intro eligible_points_filter) blast
  have "''Neutral'' \<notin> set object_prototype_keys"
    using prototype_not_faction by blast
  then have "push_throws b \<Longrightarrow> ?P b" for b
    by (auto simp: push_throws_def)
  then have thr: "(\<exists>b\<in>set (filter ?P bases). push_throws b) \<longleftrightarrow> (\<exists>b\<in>set bases. push_throws b)"
    by auto
  have "hull_point_collections (filter ?P bases) = hull_point_collections bases"
    unfolding hull_point_collections_closed thr pts ..
  then show ?thesis
    using hull_point_collections_closed [of bases] el by blast
qed

theorem faction_eligibility_filter_witness:
  "hull_point_collections
     [\<lparr>base_name = Some ''Alpha'', base_x = Some 3200, base_z = Some 6400,
       base_faction = Some ''US'', base_type = Some ''FOB'', base_poiType = None\<rparr>,
      \<lparr>base_name = Some ''Main'', base_x = Some 1600, base_z = Some 1600,
       base_faction = Some ''US'', base_type = Some ''HQ'', base_poiType = None\<rparr>,
      \<lparr>base_name = Some ''Farm'', base_x = Some 6400, base_z = Some 9600,
       base_faction = Some ''Neutral'', base_type = Some ''POI'', base_poiType = None\<rparr>] =
   Inr [(''US'', [\<lparr>px = 300, py = 600\<rparr>]), (''USSR'', []), (''FIA'', [])]"
proof -
  let ?bs = "[\<lparr>base_name = Some ''Alpha'', base_x = Some 3200, base_z = Some 6400,
       base_faction = Some ''US'', base_type = Some ''FOB'', base_poiType = None\<rparr>,
      \<lparr>base_name = Some ''Main'', base_x = Some 1600, base_z = Some 1600,
       base_faction = Some ''US'', base_type = Some ''HQ'', base_poiType = None\<rparr>,
      \<lparr>base_name = Some ''Farm'', base_x = Some 6400, base_z = Some 9600,
       base_faction = Some ''Neutral'', base_type = Some ''POI'', base_poiType = None\<rparr>]"
  have "\<not> (\<exists>b\<in>set ?bs. push_throws b)"
    by (simp add: push_throws_def object_prototype_keys_def)
  moreover have "eligible_points ''US'' ?bs = [\<lparr>px = 300, py = 600\<rparr>]"
    "eligible_points ''USSR'' ?bs = []" "eligible_points ''FIA'' ?bs = []"
    by (simp_all add: eligible_points_Cons eligible_def place_base_def falsy_number_def
        SCALE_def CANVAS_SIZE_def MAP_SIZE_def)
  ultimately show ?thesis
    using faction_eligibility_filter [of ?bs] by simp
qed

section \<open>Bases without a usable coordinate\<close>

text \<open>
  Claim C9: the presence test of the renderer is JavaScript falsiness, so that a Base
  whose \<open>x\<close> or \<open>z\<close> equals \<open>0\<close> is given no canvas position, and all that
  \<open>generateMapImage\<close> computes (the diagnostic bounding box, the hull-point collections
  and borders, the markers) is what it computes without the bases that have a zero
  coordinate.
\<close>

theorem zero_coordinate_excluded:
  "(\<forall>b. base_x b = Some 0 \<or> base_z b = Some 0 \<longrightarrow> place_base b = None) \<and>
   generateMapImage (filter (\<lambda>b. base_x b \<noteq> Some 0 \<and> base_z b \<noteq> Some 0) bases) =
     generateMapImage bases \<and>
   hull_point_collections (filter (\<lambda>b. base_x b \<noteq> Some 0 \<and> base_z b \<noteq> Some 0) bases) =
     hull_point_collections bases"
proof -
  let ?P = "\<lambda>b. base_x b \<noteq> Some 0 \<and> base_z b \<noteq> Some 0"
  have p: "place_base b \<noteq> None \<Longrightarrow> ?P b" for b
    unfolding placed_iff by (auto simp: falsy_number_def)
  then have "\<forall>b. base_x b = Some 0 \<or> base_z b = Some 0 \<longrightarrow> place_base b = None"
    by blast
  moreover have "generateMapImage (filter ?P bases) = generateMapImage bases"
    using p by (rule generateMapImage_filter)
  moreover have "hull_point_collections (filter ?P bases) = hull_point_collections bases"
    unfolding hull_point_collections_def
    using collect_positions_filter [of ?P bases "([], faction_points_init)", OF p] by simp
  ultimately show ?thesis by blast
qed

theorem zero_coordinate_excluded_witness:
  "place_base \<lparr>base_name = Some ''Edge'', base_x = Some 0, base_z = Some 6400,
               base_faction = Some ''US'', base_type = Some ''FOB'', base_poiType = None\<rparr> = None \<and>
   generateMapImage
     [\<lparr>base_name = Some ''Edge'', base_x = Some 0, base_z = Some 6400,
       base_faction = Some ''US'', base_type = Some ''FOB'', base_poiType = None\<rparr>] =
   generateMapImage []"
proof -
  let ?b = "\<lparr>base_name = Some ''Edge'', base_x = Some 0, base_z = Some 6400,
            base_faction = Some ''US'', base_type = Some ''FOB'', base_poiType = None\<rparr>"
  have "base_x ?b = Some 0 \<or> base_z ?b = Some 0" by simp
  moreover have "filter (\<lambda>b. base_x b \<noteq> Some 0 \<and> base_z b \<noteq> Some 0) [?b] = []" by simp
  ultimately show ?thesis
    using zero_coordinate_excluded [of "[?b]"] by (metis (no_types, lifting))
qed

section \<open>The summary's table of factions\<close>

lemma map_of_update_entry:
  "map_of (update_entry tbl k f) x = (if x = k then map_option f (map_of tbl x) else map_of tbl x)"
  by (induction tbl) (auto simp: update_entry_def)

lemma keys_update_entry [simp]: "map fst (update_entry tbl k f) = map fst tbl"
  by (induction tbl) (auto simp: update_entry_def)

lemma faction_target_update_entry [simp]:
  "faction_target (update_entry tbl k f) x = faction_target tbl x"
  by (auto simp: faction_target_def get_property_def map_of_update_entry split: option.splits)








section \<open>The summary does not read coordinates\<close>

lemma strip_fields [simp]:
  "base_name (strip_coordinates b) = base_name b"
  "base_faction (strip_coordinates b) = base_faction b"
  "base_type (strip_coordinates b) = base_type b"
  "base_poiType (strip_coordinates b) = base_poiType b"
  "summary_faction (strip_coordinates b) = summary_faction b"
  "poi_group_key (strip_coordinates b) = poi_group_key b"
  by (simp_all add: strip_coordinates_def summary_faction_def poi_group_key_def)

lemma map_of_strip_table:
  "map_of (strip_table tbl) x =
     map_option (\<lambda>d. d\<lparr>fd_hq := map strip_coordinates (fd_hq d),
                       fd_fobs := map strip_coordinates (fd_fobs d),
                       fd_pois := map strip_coordinates (fd_pois d)\<rparr>) (map_of tbl x)"
  by (induction tbl) (auto simp: strip_table_def)

lemma faction_target_strip_table [simp]:
  "faction_target (strip_table tbl) x = faction_target tbl x"
  by (auto simp: faction_target_def get_property_def map_of_strip_table split: option.splits)

lemma strip_table_update_entry:
  "strip_table (update_entry tbl k (\<lambda>d. d\<lparr>fd_hq := fd_hq d @ [b]\<rparr>)) =
     update_entry (strip_table tbl) k (\<lambda>d. d\<lparr>fd_hq := fd_hq d @ [strip_coordinates b]\<rparr>)"
  "strip_table (update_entry tbl k (\<lambda>d. d\<lparr>fd_fobs := fd_fobs d @ [b]\<rparr>)) =
     update_entry (strip_table tbl) k (\<lambda>d. d\<lparr>fd_fobs := fd_fobs d @ [strip_coordinates b]\<rparr>)"
  "strip_table (update_entry tbl k (\<lambda>d. d\<lparr>fd_pois := fd_pois d @ [b]\<rparr>)) =
     update_entry (strip_table tbl) k (\<lambda>d. d\<lparr>fd_pois := fd_pois d @ [strip_coordinates b]\<rparr>)"
  by (induction tbl; auto simp: strip_table_def update_entry_def)+

lemma categorize_strip:
  "categorize (map strip_coordinates bs) (strip_table tbl) =
     map_sum id strip_table (categorize bs tbl)"
proof (induction bs arbitrary: tbl)
  case Nil
  then show ?case by simp
next
  case (Cons b bs)
  show ?case
  proof (cases "faction_target tbl (summary_faction b)")
    case Prototype
    then show ?thesis
      using Cons.IH [of tbl] by (simp add: Let_def push_to_def)
  next
    case (Entry k)
    then show ?thesis
      using Cons.IH by (simp add: Let_def push_to_def strip_table_update_entry [symmetric])
  qed
qed

lemma group_pois_strip:
  "group_pois (map strip_coordinates ps) g = group_pois ps g"
  by (induction ps arbitrary: g) (simp_all split: property.splits cong: if_cong)

lemma faction_fields_strip: "faction_fields (strip_table tbl) = faction_fields tbl"
proof (induction tbl)
  case Nil
  then show ?case by (simp add: strip_table_def)
next
  case (Cons kd tbl)
  obtain k d where kd: "kd = (k, d)" by (cases kd)
  define d' where "d' = d\<lparr>fd_hq := map strip_coordinates (fd_hq d),
             fd_fobs := map strip_coordinates (fd_fobs d),
             fd_pois := map strip_coordinates (fd_pois d)\<rparr>"
  have st: "strip_table ((k, d) # tbl) = (k, d') # strip_table tbl"
    by (simp add: strip_table_def d'_def)
  have eqs: "totalBases d' = totalBases d" "fd_name d' = fd_name d"
    "map base_name (fd_hq d') = map base_name (fd_hq d)"
    "map base_name (fd_fobs d') = map base_name (fd_fobs d)"
    "group_pois (fd_pois d') [] = group_pois (fd_pois d) []"
    by (simp_all add: d'_def totalBases_def group_pois_strip comp_def)
  show ?case
    by (simp only: kd st faction_fields.simps eqs Cons.IH)
qed

lemma strip_table_summary_factions: "strip_table summary_factions = summary_factions"
  by (simp add: strip_table_def summary_factions_def empty_faction_def)

lemma summary_fields_strip:
  "summary_fields (map strip_coordinates bases) = summary_fields bases"
proof -
  have "categorize (map strip_coordinates bases) summary_factions =
        map_sum id strip_table (categorize bases summary_factions)"
    using categorize_strip [of bases summary_factions]
    by (simp add: strip_table_summary_factions)
  then show ?thesis
    by (cases "categorize bases summary_factions")
      (simp_all add: summary_fields_def faction_fields_strip)
qed

section \<open>Bases without coordinates\<close>

text \<open>
  Claim C5: for every base list, a Base that lacks \<open>x\<close> or \<open>z\<close> (and so a Base that lacks
  both) is given no canvas position, and all that \<open>generateMapImage\<close> computes, hull-point
  collections and markers included, is what it computes without such bases; the textual
  summary does not read the coordinates, so that such a Base is listed there as it would be
  with coordinates.
\<close>

theorem missing_coordinates_excluded:
  "(\<forall>b. base_x b = None \<or> base_z b = None \<longrightarrow> place_base b = None) \<and>
   generateMapImage (filter (\<lambda>b. base_x b \<noteq> None \<and> base_z b \<noteq> None) bases) =
     generateMapImage bases \<and>
   hull_point_collections (filter (\<lambda>b. base_x b \<noteq> None \<and> base_z b \<noteq> None) bases) =
     hull_point_collections bases \<and>
   summary_fields (map strip_coordinates bases) = summary_fields bases"
proof -
  let ?P = "\<lambda>b. base_x b \<noteq> None \<and> base_z b \<noteq> None"
  have p: "place_base b \<noteq> None \<Longrightarrow> ?P b" for b
    unfolding placed_iff by (auto simp: falsy_number_def split: option.splits)
  then have "\<forall>b. base_x b = None \<or> base_z b = None \<longrightarrow> place_base b = None"
    by blast
  moreover have "generateMapImage (filter ?P bases) = generateMapImage bases"
    using p by (rule generateMapImage_filter)
  moreover have "hull_point_collections (filter ?P bases) = hull_point_collections bases"
    unfolding hull_point_collections_def
    using collect_positions_filter [of ?P bases "([], faction_points_init)", OF p] by simp
  ultimately show ?thesis
    using summary_fields_strip [of bases] by blast
qed

theorem missing_coordinates_excluded_witness:
  "place_base \<lparr>base_name = Some ''Alpha'', base_x = None, base_z = None,
               base_faction = Some ''US'', base_type = Some ''FOB'', base_poiType = None\<rparr> = None \<and>
   generateMapImage
     [\<lparr>base_name = Some ''Alpha'', base_x = None, base_z = None,
       base_faction = Some ''US'', base_type = Some ''FOB'', base_poiType = None\<rparr>] =
     generateMapImage [] \<and>
   summary_fields
     [\<lparr>base_name = Some ''Alpha'', base_x = None, base_z = None,
       base_faction = Some ''US'', base_type = Some ''FOB'', base_poiType = None\<rparr>] =
     Inr [FactionField \<lparr>ff_name = ''Meridian Federation'', ff_total = 1, ff_hq = [],
                        ff_fobs = [Some ''Alpha''], ff_pois = []\<rparr>]"
proof -
  let ?b = "\<lparr>base_name = Some ''Alpha'', base_x = None, base_z = None,
            base_faction = Some ''US'', base_type = Some ''FOB'', base_poiType = None\<rparr>"
  note c = missing_coordinates_excluded [of "[?b]"]
  have "base_x ?b = None \<or> base_z ?b = None" by simp
  with c have 1: "place_base ?b = None" by blast
  have "filter (\<lambda>b. base_x b \<noteq> None \<and> base_z b \<noteq> None) [?b] = []" by simp
  with c have 2: "generateMapImage [?b] = generateMapImage []" by metis
  have 3: "summary_fields [?b] =
     Inr [FactionField \<lparr>ff_name = ''Meridian Federation'', ff_total = 1, ff_hq = [],
                        ff_fobs = [Some ''Alpha''], ff_pois = []\<rparr>]"
    by code_simp
  show ?thesis using 1 2 3 by (intro conjI)
qed

section \<open>Bases of an unrecognized type\<close>






section \<open>Ingestion\<close>

lemma map_of_set_property:
  "map_of (set_property kvs k v) k' = (if k' = k then Some v else map_of kvs k')"
  by (induction kvs) auto

lemma post_territory_parsed:
  assumes "parse_body rt body = Inr d"
  shows "post_territory rt body s =
           (case set_lastUpdate d (now rt) of
              Inl e \<Rightarrow> (Error500, s\<lparr>territoryData := d\<rparr>)
            | Inr stamped \<Rightarrow>
                if write_ok rt
                then (Success, s\<lparr>territoryData := stamped, territoryFile := Some stamped\<rparr>)
                else (Error500, s\<lparr>territoryData := stamped\<rparr>))"
  using assms by (simp add: post_territory_def)

lemma post_territory_success:
  assumes "post_territory rt body s = (Success, s')"
  obtains d stamped where "parse_body rt body = Inr d" "set_lastUpdate d (now rt) = Inr stamped"
    "write_ok rt" "s' = s\<lparr>territoryData := stamped, territoryFile := Some stamped\<rparr>"
  using assms by (auto simp: post_territory_def split: sum.splits if_splits)

text \<open>
  Claim C2: when the body is decoded as a mapping whose sole key is the text \<open>{"bases":\<close>
  and whose value is a mapping with the serialized array body as its sole key, the handler
  parses the text \<open>{"bases":[\<close> + body + \<open>]}\<close>, and answers and stores what it answers and
  stores for that text posted as it is, and for the object that the text is parsed to,
  posted directly. The stored snapshot's base list is the one of that object.
  \<open>JSON.parse\<close> is the one of the runtime; the hypothesis names its result.
\<close>

theorem mangled_payload_reconstruction:
  assumes "JSON_parse rt (''{\"bases\":['' @ content @ '']}'') = Some (Obj [(''bases'', bs)])"
  shows "post_territory rt (Obj [(''{\"bases\":'', Obj [(content, v)])]) s =
           post_territory rt (Obj [(''bases'', bs)]) s \<and>
         post_territory rt (Obj [(''{\"bases\":'', Obj [(content, v)])]) s =
           post_territory rt (Str (''{\"bases\":['' @ content @ '']}'')) s \<and>
         get_member
           (territoryData (snd (post_territory rt (Obj [(''{\"bases\":'', Obj [(content, v)])]) s)))
           ''bases'' = bs"
proof -
  let ?mangled = "Obj [(''{\"bases\":'', Obj [(content, v)])]"
  let ?text = "''{\"bases\":['' @ content @ '']}''"
  let ?direct = "Obj [(''bases'', bs)]"
  have m: "parse_body rt ?mangled = Inr ?direct"
    using assms
    by (simp add: parse_body_def startsWith_brace_def first_key_def concat_key_def parse_json_def)
  have t: "parse_body rt (Str ?text) = Inr ?direct"
    using assms by (simp add: parse_body_def parse_json_def)
  have d: "parse_body rt ?direct = Inr ?direct"
    by (simp add: parse_body_def startsWith_brace_def)
  have 1: "post_territory rt ?mangled s = post_territory rt ?direct s"
    by (simp only: post_territory_parsed [OF m] post_territory_parsed [OF d])
  have 2: "post_territory rt ?mangled s = post_territory rt (Str ?text) s"
    by (simp only: post_territory_parsed [OF m] post_territory_parsed [OF t])
  have 3: "get_member (territoryData (snd (post_territory rt ?mangled s))) ''bases'' = bs"
    by (simp add: post_territory_parsed [OF m] set_lastUpdate_def get_member_def)
  show ?thesis using 1 2 3 by (intro conjI)
qed

theorem mangled_payload_reconstruction_witness:
  "post_territory
     \<lparr>JSON_parse =
        (\<lambda>t. if t = ''{\"bases\":[{\"name\":\"Alpha\",\"x\":100,\"z\":200}]}''
             then Some (Obj [(''bases'',
                    Arr [Obj [(''name'', Str ''Alpha''), (''x'', Num 100), (''z'', Num 200)]])])
             else None),
      now = ''2024-05-01T12:00:00.000Z'', write_ok = True\<rparr>
     (Obj [(''{\"bases\":'', Obj [(''{\"name\":\"Alpha\",\"x\":100,\"z\":200}'', Str [])])])
     \<lparr>territoryData = Obj [(''bases'', Arr []), (''lastUpdate'', Null)], territoryFile = None\<rparr> =
   (Success,
    \<lparr>territoryData =
       Obj [(''bases'', Arr [Obj [(''name'', Str ''Alpha''), (''x'', Num 100), (''z'', Num 200)]]),
            (''lastUpdate'', Str ''2024-05-01T12:00:00.000Z'')],
     territoryFile =
       Some (Obj [(''bases'',
                   Arr [Obj [(''name'', Str ''Alpha''), (''x'', Num 100), (''z'', Num 200)]]),
                  (''lastUpdate'', Str ''2024-05-01T12:00:00.000Z'')])\<rparr>)"
proof -
  let ?alpha = "Arr [Obj [(''name'', Str ''Alpha''), (''x'', Num 100), (''z'', Num 200)]]"
  let ?rt = "\<lparr>JSON_parse =
        (\<lambda>t. if t = ''{\"bases\":[{\"name\":\"Alpha\",\"x\":100,\"z\":200}]}''
             then Some (Obj [(''bases'', ?alpha)]) else None),
      now = ''2024-05-01T12:00:00.000Z'', write_ok = True\<rparr>"
  let ?s = "\<lparr>territoryData = Obj [(''bases'', Arr []), (''lastUpdate'', Null)],
            territoryFile = None\<rparr>"
  have h: "JSON_parse ?rt (''{\"bases\":['' @ ''{\"name\":\"Alpha\",\"x\":100,\"z\":200}'' @ '']}'') =
      Some (Obj [(''bases'', ?alpha)])"
    by simp
  have "post_territory ?rt (Obj [(''bases'', ?alpha)]) ?s =
     (Success,
      \<lparr>territoryData = Obj [(''bases'', ?alpha), (''lastUpdate'', Str ''2024-05-01T12:00:00.000Z'')],
       territoryFile =
         Some (Obj [(''bases'', ?alpha), (''lastUpdate'', Str ''2024-05-01T12:00:00.000Z'')])\<rparr>)"
    by (simp add: post_territory_def parse_body_def startsWith_brace_def set_lastUpdate_def)
  then show ?thesis
    using mangled_payload_reconstruction [OF h, of "Str []" ?s] by simp
qed

text \<open>
  Claim C6: for every payload whose parse or reconstruction fails (the body is a text that
  \<open>JSON.parse\<close> rejects, or a mangled mapping whose reconstructed text it rejects or whose
  nested value has no keys to list), the handler answers with status 500 and the state,
  \<open>territoryData\<close> and file, is as it was.
\<close>

theorem ingestion_failure_keeps_snapshot:
  "(parse_body rt body = Inl e \<longrightarrow> post_territory rt body s = (Error500, s)) \<and>
   (JSON_parse rt t = None \<longrightarrow> parse_body rt (Str t) = Inl SyntaxError) \<and>
   (startsWith_brace k \<and> first_key v = Inr c \<and>
    JSON_parse rt (''{\"bases\":['' @ concat_key c @ '']}'') = None \<longrightarrow>
      parse_body rt (Obj ((k, v) # rest)) = Inl SyntaxError) \<and>
   (startsWith_brace k \<and> first_key v = Inl e' \<longrightarrow>
      parse_body rt (Obj ((k, v) # rest)) = Inl e')"
proof -
  have ne: "k \<noteq> []" if "startsWith_brace k"
    using that by (auto simp: startsWith_brace_def)
  have "parse_body rt body = Inl e \<longrightarrow> post_territory rt body s = (Error500, s)"
    by (simp add: post_territory_def)
  moreover have "JSON_parse rt t = None \<longrightarrow> parse_body rt (Str t) = Inl SyntaxError"
    by (simp add: parse_body_def parse_json_def)
  moreover have "startsWith_brace k \<and> first_key v = Inr c \<and>
      JSON_parse rt (''{\"bases\":['' @ concat_key c @ '']}'') = None \<longrightarrow>
      parse_body rt (Obj ((k, v) # rest)) = Inl SyntaxError"
    using ne by (auto simp: parse_body_def parse_json_def)
  moreover have "startsWith_brace k \<and> first_key v = Inl e' \<longrightarrow>
      parse_body rt (Obj ((k, v) # rest)) = Inl e'"
    using ne by (auto simp: parse_body_def)
  ultimately show ?thesis by (intro conjI)
qed

theorem ingestion_failure_keeps_snapshot_witness:
  "parse_body \<lparr>JSON_parse = (\<lambda>t. None), now = ''2024-05-01T12:00:00.000Z'', write_ok = True\<rparr>
     (Str ''{bases:'') = Inl SyntaxError \<and>
   post_territory \<lparr>JSON_parse = (\<lambda>t. None), now = ''2024-05-01T12:00:00.000Z'', write_ok = True\<rparr>
     (Str ''{bases:'')
     \<lparr>territoryData = Obj [(''bases'', Arr [Obj [(''name'', Str ''Alpha'')]]), (''lastUpdate'', Null)],
      territoryFile = None\<rparr> =
   (Error500,
    \<lparr>territoryData = Obj [(''bases'', Arr [Obj [(''name'', Str ''Alpha'')]]), (''lastUpdate'', Null)],
     territoryFile = None\<rparr>)"
proof -
  let ?rt = "\<lparr>JSON_parse = (\<lambda>t. None), now = ''2024-05-01T12:00:00.000Z'', write_ok = True\<rparr>"
  let ?s = "\<lparr>territoryData = Obj [(''bases'', Arr [Obj [(''name'', Str ''Alpha'')]]), (''lastUpdate'', Null)],
      territoryFile = None\<rparr>"
  have p: "parse_body ?rt (Str ''{bases:'') = Inl SyntaxError"
    by (simp add: parse_body_def parse_json_def)
  from ingestion_failure_keeps_snapshot [of ?rt "Str ''{bases:''" SyntaxError ?s]
  have "parse_body ?rt (Str ''{bases:'') = Inl SyntaxError \<longrightarrow>
      post_territory ?rt (Str ''{bases:'') ?s = (Error500, ?s)"
    by (rule conjunct1)
  with p show ?thesis by simp
qed

text \<open>
  Claim C7: when snapshot A and then snapshot B are ingested with success, the state after
  B is the one that ingesting B leaves from any state at all, so it holds nothing of A:
  \<open>territoryData\<close>, which the GET handler answers with, and the file, which the
  publisher reads before it renders, are both B's parsed data with the time stamp of B's
  ingestion as \<open>lastUpdate\<close>, and its bases are B's bases.
\<close>

theorem snapshot_replaced:
  assumes A: "post_territory rtA bodyA s0 = (Success, sA)"
      and B: "post_territory rtB bodyB sA = (Success, sB)"
  shows "post_territory rtB bodyB s' = (Success, sB) \<and>
         (\<exists>d. parse_body rtB bodyB = Inr d \<and>
               set_lastUpdate d (now rtB) = Inr (get_territory sB)) \<and>
         territoryFile sB = Some (get_territory sB) \<and>
         get_territory (reload_territory sB) = get_territory sB \<and>
         (\<forall>kvs. parse_body rtB bodyB = Inr (Obj kvs) \<longrightarrow>
            get_member (get_territory sB) ''bases'' = get_member (Obj kvs) ''bases'' \<and>
            get_member (get_territory sB) ''lastUpdate'' = Str (now rtB))"
proof -
  from B obtain d stamped where d: "parse_body rtB bodyB = Inr d"
    and st: "set_lastUpdate d (now rtB) = Inr stamped" and w: "write_ok rtB"
    and sB: "sB = sA\<lparr>territoryData := stamped, territoryFile := Some stamped\<rparr>"
    by (rule post_territory_success)
  have sB': "sB = \<lparr>territoryData = stamped, territoryFile = Some stamped\<rparr>"
    unfolding sB by (cases sA) simp
  have 1: "post_territory rtB bodyB s' = (Success, sB)"
    unfolding post_territory_parsed [OF d] sB' using st w by (cases s') simp
  have 2: "\<exists>d. parse_body rtB bodyB = Inr d \<and> set_lastUpdate d (now rtB) = Inr (get_territory sB)"
    using d st by (simp add: sB' get_territory_def)
  have 3: "territoryFile sB = Some (get_territory sB)"
    by (simp add: sB' get_territory_def)
  have 4: "get_territory (reload_territory sB) = get_territory sB"
    by (simp add: sB' get_territory_def reload_territory_def)
  have 5: "get_member (get_territory sB) ''bases'' = get_member (Obj kvs) ''bases'' \<and>
      get_member (get_territory sB) ''lastUpdate'' = Str (now rtB)"
    if "parse_body rtB bodyB = Inr (Obj kvs)" for kvs
  proof -
    have "d = Obj kvs" using d that by simp
    then have "stamped = Obj (set_property kvs ''lastUpdate'' (Str (now rtB)))"
      using st by (simp add: set_lastUpdate_def)
    then show ?thesis
      by (simp add: sB' get_territory_def get_member_def map_of_set_property)
  qed
  show ?thesis using 1 2 3 4 5 by blast
qed

theorem snapshot_replaced_witness:
  "post_territory \<lparr>JSON_parse = (\<lambda>t. None), now = ''2024-05-01T12:00:30.000Z'', write_ok = True\<rparr>
     (Obj [(''bases'', Arr [Obj [(''name'', Str ''Bravo'')]])])
     (snd (post_territory
        \<lparr>JSON_parse = (\<lambda>t. None), now = ''2024-05-01T12:00:00.000Z'', write_ok = True\<rparr>
        (Obj [(''bases'', Arr [Obj [(''name'', Str ''Alpha'')]])])
        \<lparr>territoryData = Obj [(''bases'', Arr []), (''lastUpdate'', Null)], territoryFile = None\<rparr>)) =
   (Success,
    \<lparr>territoryData = Obj [(''bases'', Arr [Obj [(''name'', Str ''Bravo'')]]),
                          (''lastUpdate'', Str ''2024-05-01T12:00:30.000Z'')],
     territoryFile = Some (Obj [(''bases'', Arr [Obj [(''name'', Str ''Bravo'')]]),
                                (''lastUpdate'', Str ''2024-05-01T12:00:30.000Z'')])\<rparr>) \<and>
   get_member
     (get_territory
        \<lparr>territoryData = Obj [(''bases'', Arr [Obj [(''name'', Str ''Bravo'')]]),
                              (''lastUpdate'', Str ''2024-05-01T12:00:30.000Z'')],
         territoryFile = Some (Obj [(''bases'', Arr [Obj [(''name'', Str ''Bravo'')]]),
                                    (''lastUpdate'', Str ''2024-05-01T12:00:30.000Z'')])\<rparr>)
     ''bases'' = Arr [Obj [(''name'', Str ''Bravo'')]]"
proof -
  let ?rtA = "\<lparr>JSON_parse = (\<lambda>t. None), now = ''2024-05-01T12:00:00.000Z'', write_ok = True\<rparr>"
  let ?rtB = "\<lparr>JSON_parse = (\<lambda>t. None), now = ''2024-05-01T12:00:30.000Z'', write_ok = True\<rparr>"
  let ?a = "Obj [(''bases'', Arr [Obj [(''name'', Str ''Alpha'')]])]"
  let ?b = "Obj [(''bases'', Arr [Obj [(''name'', Str ''Bravo'')]])]"
  let ?s0 = "\<lparr>territoryData = Obj [(''bases'', Arr []), (''lastUpdate'', Null)], territoryFile = None\<rparr>"
  let ?sA = "\<lparr>territoryData = Obj [(''bases'', Arr [Obj [(''name'', Str ''Alpha'')]]),
                          (''lastUpdate'', Str ''2024-05-01T12:00:00.000Z'')],
     territoryFile = Some (Obj [(''bases'', Arr [Obj [(''name'', Str ''Alpha'')]]),
                                (''lastUpdate'', Str ''2024-05-01T12:00:00.000Z'')])\<rparr>"
  let ?sB = "\<lparr>territoryData = Obj [(''bases'', Arr [Obj [(''name'', Str ''Bravo'')]]),
                          (''lastUpdate'', Str ''2024-05-01T12:00:30.000Z'')],
     territoryFile = Some (Obj [(''bases'', Arr [Obj [(''name'', Str ''Bravo'')]]),
                                (''lastUpdate'', Str ''2024-05-01T12:00:30.000Z'')])\<rparr>"
  have A: "post_territory ?rtA ?a ?s0 = (Success, ?sA)"
    by (simp add: post_territory_def parse_body_def startsWith_brace_def set_lastUpdate_def)
  have B: "post_territory ?rtB ?b ?sA = (Success, ?sB)"
    by (simp add: post_territory_def parse_body_def startsWith_brace_def set_lastUpdate_def)
  have pb: "parse_body ?rtB ?b = Inr ?b"
    by (simp add: parse_body_def startsWith_brace_def)
  note c = snapshot_replaced [OF A B, of ?s0]
  from c pb have "get_member (get_territory ?sB) ''bases'' = get_member ?b ''bases''"
    by blast
  then have "get_member (get_territory ?sB) ''bases'' = Arr [Obj [(''name'', Str ''Bravo'')]]"
    by (simp add: get_member_def)
  then show ?thesis using A B by simp
qed


end
